theory Spec2Isabelle
  imports Main "HOL-Library.Sublist"
begin

section \<open>JavaScript values\<close>

text \<open>
  The values that travel through the models are the primitive values of JavaScript and
  the values that a property read finds on \<open>Object.prototype\<close>.
  \<open>JNum n\<close> is the Number whose value is the integer \<open>n\<close> (the schemas and the doc
  comments of the models speak of integers only); it stands for a safe integer, for which
  the conversion to a string is the decimal numeral. \<open>JFunction f\<close> is the built-in
  function named \<open>f\<close>, and \<open>JObjectPrototype\<close> is the object \<open>Object.prototype\<close>. Other
  objects are kept apart: a plain object is the list of its own enumerable properties in
  the order of \<open>Object.keys\<close>.
\<close>

datatype jsval =
  JUndefined | JNull | JBool bool | JNum int | JStr string
  | JFunction string | JObjectPrototype

type_synonym js_object = "(string \<times> jsval) list"

abbreviation NL :: char where "NL \<equiv> CHR 0x0A"
abbreviation TAB :: char where "TAB \<equiv> CHR 0x09"
abbreviation DQ :: char where "DQ \<equiv> CHR 0x22"

text \<open>ToBoolean: what \<open>if (v)\<close>, \<open>!v\<close> and \<open>v || w\<close> test.\<close>

fun truthy :: "jsval \<Rightarrow> bool" where
  "truthy JUndefined = False"
| "truthy JNull = False"
| "truthy (JBool b) = b"
| "truthy (JNum n) = (n \<noteq> 0)"
| "truthy (JStr s) = (s \<noteq> [])"
| "truthy (JFunction f) = True"
| "truthy JObjectPrototype = True"

definition js_or :: "jsval \<Rightarrow> jsval \<Rightarrow> jsval" where
  "js_or a b = (if truthy a then a else b)"

text \<open>The decimal numeral of an array length or index, as string concatenation and
  template literals produce it.\<close>

definition digit_char :: "nat \<Rightarrow> char" where
  "digit_char d = ''0123456789'' ! d"

fun string_of_nat :: "nat \<Rightarrow> string" where
  "string_of_nat n =
     (if n < 10 then [digit_char n] else string_of_nat (n div 10) @ [digit_char (n mod 10)])"

declare string_of_nat.simps [simp del]

definition number_to_string :: "int \<Rightarrow> string" where
  "number_to_string n =
     (if n < 0 then ''-'' @ string_of_nat (nat (- n)) else string_of_nat (nat n))"

text \<open>ToString, as a template literal applies it to an interpolated value. A built-in
  function prints as Node prints it, and \<open>Object.prototype\<close> as \<open>[object Object]\<close>.\<close>

fun to_string :: "jsval \<Rightarrow> string" where
  "to_string JUndefined = ''undefined''"
| "to_string JNull = ''null''"
| "to_string (JBool b) = (if b then ''true'' else ''false'')"
| "to_string (JNum n) = number_to_string n"
| "to_string (JStr s) = s"
| "to_string (JFunction f) = ''function '' @ f @ ''() { [native code] }''"
| "to_string JObjectPrototype = ''[object Object]''"

text \<open>\<open>Array.prototype.join\<close> on an array of strings.\<close>

fun join :: "string \<Rightarrow> string list \<Rightarrow> string" where
  "join sep [] = []"
| "join sep [x] = x"
| "join sep (x # y # ys) = x @ sep @ join sep (y # ys)"

text \<open>
  Reading a property \<open>obj[k]\<close> of a plain object goes through the prototype chain: the
  object's own property when it has one, else the member of \<open>Object.prototype\<close> of that
  name, else \<open>undefined\<close>. The members of \<open>Object.prototype\<close> are the constructor
  \<open>Object\<close>, ten methods, and the accessor \<open>__proto__\<close>, which read on a plain object
  gives \<open>Object.prototype\<close> itself.
\<close>

definition Object_prototype :: "(string \<times> jsval) list" where
  "Object_prototype =
     [(''constructor'', JFunction ''Object''),
      (''__defineGetter__'', JFunction ''__defineGetter__''),
      (''__defineSetter__'', JFunction ''__defineSetter__''),
      (''hasOwnProperty'', JFunction ''hasOwnProperty''),
      (''__lookupGetter__'', JFunction ''__lookupGetter__''),
      (''__lookupSetter__'', JFunction ''__lookupSetter__''),
      (''isPrototypeOf'', JFunction ''isPrototypeOf''),
      (''propertyIsEnumerable'', JFunction ''propertyIsEnumerable''),
      (''toString'', JFunction ''toString''),
      (''valueOf'', JFunction ''valueOf''),
      (''toLocaleString'', JFunction ''toLocaleString''),
      (''__proto__'', JObjectPrototype)]"

definition object_get :: "js_object \<Rightarrow> string \<Rightarrow> jsval" where
  "object_get obj k =
     (case map_of obj k of
        Some v \<Rightarrow> v
      | None \<Rightarrow> (case map_of Object_prototype k of Some v \<Rightarrow> v | None \<Rightarrow> JUndefined))"

section \<open>Errors\<close>

text \<open>
  The error classes of \<open>expressError\<close> that the models and routes throw, with their
  message. A failed schema validation is thrown as a \<open>BadRequestError\<close> whose message is
  the list of the validator's errors. An error of the storage client is passed on as it
  is.
\<close>

datatype validation_error =
  AdditionalProperty string | MissingProperty string | InvalidProperty string

datatype message = Message string | ValidationErrors "validation_error list"

datatype error = BadRequestError message | NotFoundError message | StorageError string

section \<open>helpers/sql.js\<close>

record partial_update =
  setCols :: string
  vals :: "jsval list"

text \<open>The callback of \<open>keys.map\<close> in \<open>sqlForPartialUpdate\<close>: the fragment for the key
  \<open>colName\<close> at index \<open>idx\<close>.\<close>

definition column_name :: "(string \<Rightarrow> jsval) \<Rightarrow> string \<Rightarrow> string" where
  "column_name jsToSql colName = to_string (js_or (jsToSql colName) (JStr colName))"

definition assignment :: "(string \<Rightarrow> jsval) \<Rightarrow> nat \<Rightarrow> string \<Rightarrow> string" where
  "assignment jsToSql idx colName =
     [DQ] @ column_name jsToSql colName @ [DQ] @ ''=$'' @ string_of_nat (idx + 1)"

definition partial_update_cols :: "(string \<Rightarrow> jsval) \<Rightarrow> string list \<Rightarrow> string list" where
  "partial_update_cols jsToSql keys =
     map (\<lambda>(idx, colName). assignment jsToSql idx colName) (enumerate 0 keys)"

text \<open>\<open>jsToSql\<close> is given by its property read \<open>jsToSql[colName]\<close>; the field \<open>values\<close> of
  the result is called \<open>vals\<close> here.\<close>

definition sqlForPartialUpdate ::
  "js_object \<Rightarrow> (string \<Rightarrow> jsval) \<Rightarrow> error + partial_update" where
  "sqlForPartialUpdate dataToUpdate jsToSql =
     (let keys = map fst dataToUpdate in
      if length keys = 0 then Inl (BadRequestError (Message ''No data''))
      else
        let cols = partial_update_cols jsToSql keys in
        Inr \<lparr>setCols = join '', '' cols, vals = map snd dataToUpdate\<rparr>)"

section \<open>The storage client\<close>

text \<open>
  \<open>db.query(sql, values)\<close> takes a statement with positional placeholders and the list of
  bind values and returns the rows of the result, or throws. The storage is outside the
  program: its answer is a function of the queries made so far and of the query asked.
  The state that the models thread is the list of the queries made, in order.
\<close>

type_synonym row = js_object
type_synonym query = "string \<times> jsval list"
type_synonym db = "query list \<Rightarrow> query \<Rightarrow> error + row list"

definition db_query :: "db \<Rightarrow> query \<Rightarrow> query list \<Rightarrow> (error + row list) \<times> query list" where
  "db_query db q log = (db log q, log @ [q])"

text \<open>\<open>rows[0]\<close>: the first row, \<open>undefined\<close> (here \<open>None\<close>) when there is none.\<close>

definition first_row :: "row list \<Rightarrow> row option" where
  "first_row rows = (case rows of [] \<Rightarrow> None | r # _ \<Rightarrow> Some r)"

section \<open>models/company.js\<close>

definition Company_create_duplicateCheck_sql :: string where
  "Company_create_duplicateCheck_sql =
   ''SELECT handle'' @ [NL] @ ''           FROM companies'' @ [NL] @
    ''           WHERE handle = $1''"

definition Company_create_sql :: string where
  "Company_create_sql =
   ''INSERT INTO companies'' @ [NL] @
    ''           (handle, name, description, num_employees, logo_url)'' @ [NL] @
    ''           VALUES ($1, $2, $3, $4, $5)'' @ [NL] @
    ''           RETURNING handle, name, description, num_employees AS '' @ [DQ] @
    ''numEmployees'' @ [DQ] @ '', logo_url AS '' @ [DQ] @ ''logoUrl'' @ [DQ]"

text \<open>The argument of \<open>create\<close> is destructured: each field is a property read.\<close>

definition Company_create ::
  "db \<Rightarrow> js_object \<Rightarrow> query list \<Rightarrow> (error + row option) \<times> query list" where
  "Company_create db data log =
     (let handle = object_get data ''handle'' in
      case db_query db (Company_create_duplicateCheck_sql, [handle]) log of
        (Inl e, log1) \<Rightarrow> (Inl e, log1)
      | (Inr duplicateCheck, log1) \<Rightarrow>
          (case first_row duplicateCheck of
             Some _ \<Rightarrow>
               (Inl (BadRequestError (Message (''Duplicate company: '' @ to_string handle))),
                log1)
           | None \<Rightarrow>
               (case db_query db
                  (Company_create_sql,
                   [handle, object_get data ''name'', object_get data ''description'',
                    object_get data ''numEmployees'', object_get data ''logoUrl'']) log1 of
                  (Inl e, log2) \<Rightarrow> (Inl e, log2)
                | (Inr result, log2) \<Rightarrow> (Inr (first_row result), log2))))"

record company_filters =
  minEmployees :: "int option"
  maxEmployees :: "int option"
  name :: jsval

text \<open>\<open>a > b\<close> on two criteria that are integers when present: a comparison with
  \<open>undefined\<close> is false.\<close>

definition js_gt :: "int option \<Rightarrow> int option \<Rightarrow> bool" where
  "js_gt a b = (case (a, b) of (Some x, Some y) \<Rightarrow> x > y | _ \<Rightarrow> False)"

definition Company_findAll_mainQuery :: string where
  "Company_findAll_mainQuery =
   ''SELECT handle,'' @ [NL] @ ''                  name,'' @ [NL] @
    ''                  description,'' @ [NL] @ ''                  num_employees AS '' @
    [DQ] @ ''numEmployees'' @ [DQ] @ '','' @ [NL] @ ''                  logo_url AS '' @
    [DQ] @ ''logoUrl'' @ [DQ] @ [NL] @ ''           FROM companies'' @ [NL] @ ''           ''"

text \<open>The three independent \<open>if\<close> statements of \<open>findAll\<close> that push onto
  \<open>whereValues\<close> and \<open>whereStatements\<close>, then the assembly of the statement.\<close>

definition Company_findAll_wheres :: "company_filters \<Rightarrow> string list \<times> jsval list" where
  "Company_findAll_wheres filterOptions =
     (let whereStatements = []; whereValues = [];
          (whereStatements, whereValues) =
            (case minEmployees filterOptions of
               None \<Rightarrow> (whereStatements, whereValues)
             | Some m \<Rightarrow>
                 (let whereValues = whereValues @ [JNum m] in
                  (whereStatements @ [''num_employees >= $'' @ string_of_nat (length whereValues)],
                   whereValues)));
          (whereStatements, whereValues) =
            (case maxEmployees filterOptions of
               None \<Rightarrow> (whereStatements, whereValues)
             | Some m \<Rightarrow>
                 (let whereValues = whereValues @ [JNum m] in
                  (whereStatements @ [''num_employees <= $'' @ string_of_nat (length whereValues)],
                   whereValues)));
          (whereStatements, whereValues) =
            (if truthy (name filterOptions) then
               (let whereValues =
                      whereValues @ [JStr (''%'' @ to_string (name filterOptions) @ ''%'')] in
                (whereStatements @ [''name ILIKE $'' @ string_of_nat (length whereValues)],
                 whereValues))
             else (whereStatements, whereValues))
      in (whereStatements, whereValues))"

definition Company_findAll_query :: "string list \<Rightarrow> string" where
  "Company_findAll_query whereStatements =
     (let mainQuery = Company_findAll_mainQuery;
          mainQuery =
            (if length whereStatements > 0
             then mainQuery @ '' WHERE '' @ join '' AND '' whereStatements
             else mainQuery)
      in mainQuery @ ''ORDER BY name'')"

definition Company_findAll ::
  "db \<Rightarrow> company_filters \<Rightarrow> query list \<Rightarrow> (error + row list) \<times> query list" where
  "Company_findAll db filterOptions log =
     (if js_gt (minEmployees filterOptions) (maxEmployees filterOptions) then
        (Inl (BadRequestError (Message
           ''Minimum number of employees must not be greater than maximum!'')), log)
      else
        let (whereStatements, whereValues) = Company_findAll_wheres filterOptions in
        db_query db (Company_findAll_query whereStatements, whereValues) log)"

definition Company_get_sql :: string where
  "Company_get_sql =
   ''SELECT handle,'' @ [NL] @ ''                  name,'' @ [NL] @
    ''                  description,'' @ [NL] @ ''                  num_employees AS '' @
    [DQ] @ ''numEmployees'' @ [DQ] @ '','' @ [NL] @ ''                  logo_url AS '' @
    [DQ] @ ''logoUrl'' @ [DQ] @ [NL] @ ''           FROM companies'' @ [NL] @
    ''           WHERE handle = $1''"

definition Company_get_jobs_sql :: string where
  "Company_get_jobs_sql =
   [NL] @ [TAB] @ [TAB] @ [TAB] @ ''SELECT  id,'' @ [NL] @ [TAB] @ [TAB] @ [TAB] @ [TAB] @
    [TAB] @ ''title, '' @ [NL] @ [TAB] @ [TAB] @ [TAB] @ [TAB] @ [TAB] @ ''salary,'' @ [NL] @
    [TAB] @ [TAB] @ [TAB] @ [TAB] @ [TAB] @ ''equity'' @ [NL] @ [TAB] @ [TAB] @ [TAB] @
    ''FROM jobs'' @ [NL] @ [TAB] @ [TAB] @ [TAB] @ ''WHERE company_handle = $1'' @ [NL] @
    [TAB] @ [TAB] @ [TAB] @ ''ORDER BY id'' @ [NL] @ [TAB] @ [TAB] @ [TAB]"

text \<open>\<open>get\<close> returns the company row with its \<open>jobs\<close> property set to the rows of the
  second query: here the pair of both.\<close>

definition Company_get ::
  "db \<Rightarrow> jsval \<Rightarrow> query list \<Rightarrow> (error + row \<times> row list) \<times> query list" where
  "Company_get db handle log =
     (case db_query db (Company_get_sql, [handle]) log of
        (Inl e, log1) \<Rightarrow> (Inl e, log1)
      | (Inr companyRes, log1) \<Rightarrow>
          (case first_row companyRes of
             None \<Rightarrow> (Inl (NotFoundError (Message (''No company: '' @ to_string handle))), log1)
           | Some company \<Rightarrow>
               (case db_query db (Company_get_jobs_sql, [handle]) log1 of
                  (Inl e, log2) \<Rightarrow> (Inl e, log2)
                | (Inr jobRes, log2) \<Rightarrow> (Inr (company, jobRes), log2))))"

definition Company_update_jsToSql :: js_object where
  "Company_update_jsToSql =
     [(''numEmployees'', JStr ''num_employees''), (''logoUrl'', JStr ''logo_url'')]"

definition Company_update_querySql :: "string \<Rightarrow> string \<Rightarrow> string" where
  "Company_update_querySql setCols' handleVarIdx =
   ''UPDATE companies '' @ [NL] @ ''                      SET '' @ setCols' @ '' '' @
    [NL] @ ''                      WHERE handle = '' @ handleVarIdx @ '' '' @ [NL] @
    ''                      RETURNING handle, '' @ [NL] @
    ''                                name, '' @ [NL] @
    ''                                description, '' @ [NL] @
    ''                                num_employees AS '' @ [DQ] @ ''numEmployees'' @ [DQ] @
    '', '' @ [NL] @ ''                                logo_url AS '' @ [DQ] @ ''logoUrl'' @
    [DQ]"

definition Company_update ::
  "db \<Rightarrow> jsval \<Rightarrow> js_object \<Rightarrow> query list \<Rightarrow> (error + row) \<times> query list" where
  "Company_update db handle data log =
     (case sqlForPartialUpdate data (object_get Company_update_jsToSql) of
        Inl e \<Rightarrow> (Inl e, log)
      | Inr r \<Rightarrow>
          (let handleVarIdx = ''$'' @ string_of_nat (length (vals r) + 1);
               querySql = Company_update_querySql (setCols r) handleVarIdx
           in case db_query db (querySql, vals r @ [handle]) log of
                (Inl e, log1) \<Rightarrow> (Inl e, log1)
              | (Inr result, log1) \<Rightarrow>
                  (case first_row result of
                     None \<Rightarrow>
                       (Inl (NotFoundError (Message (''No company: '' @ to_string handle))), log1)
                   | Some company \<Rightarrow> (Inr company, log1))))"

definition Company_remove_sql :: string where
  "Company_remove_sql =
   ''DELETE'' @ [NL] @ ''           FROM companies'' @ [NL] @
    ''           WHERE handle = $1'' @ [NL] @ ''           RETURNING handle''"

definition Company_remove ::
  "db \<Rightarrow> jsval \<Rightarrow> query list \<Rightarrow> (error + unit) \<times> query list" where
  "Company_remove db handle log =
     (case db_query db (Company_remove_sql, [handle]) log of
        (Inl e, log1) \<Rightarrow> (Inl e, log1)
      | (Inr result, log1) \<Rightarrow>
          (case first_row result of
             None \<Rightarrow> (Inl (NotFoundError (Message (''No company: '' @ to_string handle))), log1)
           | Some company \<Rightarrow> (Inr (), log1)))"

section \<open>models/job.js\<close>

record job_filters =
  title :: jsval
  minSalary :: "int option"
  hasEquity :: jsval

definition Job_findAll_mainQuery :: string where
  "Job_findAll_mainQuery =
   ''SELECT j.id, j.title, j.salary, j.equity, j.company_handle as '' @ [DQ] @
    ''companyHandle'' @ [DQ] @ '', c.name AS '' @ [DQ] @ ''companyName'' @ [DQ] @ [NL] @
    ''        FROM jobs j '' @ [NL] @ ''        LEFT JOIN companies AS c'' @ [NL] @
    ''        ON c.handle = j.company_handle ''"

definition Job_findAll_wheres :: "job_filters \<Rightarrow> string list \<times> jsval list" where
  "Job_findAll_wheres filterOptions =
     (let whereStatements = []; whereValues = [];
          (whereStatements, whereValues) =
            (case minSalary filterOptions of
               None \<Rightarrow> (whereStatements, whereValues)
             | Some m \<Rightarrow>
                 (let whereValues = whereValues @ [JNum m] in
                  (whereStatements @ [''salary >= $'' @ string_of_nat (length whereValues)],
                   whereValues)));
          whereStatements =
            (if hasEquity filterOptions = JBool True
             then whereStatements @ [''equity > 0'']
             else whereStatements);
          (whereStatements, whereValues) =
            (if title filterOptions \<noteq> JUndefined then
               (let whereValues =
                      whereValues @ [JStr (''%'' @ to_string (title filterOptions) @ ''%'')] in
                (whereStatements @ [''title ILIKE $'' @ string_of_nat (length whereValues)],
                 whereValues))
             else (whereStatements, whereValues))
      in (whereStatements, whereValues))"

definition Job_findAll_query :: "string list \<Rightarrow> string" where
  "Job_findAll_query whereStatements =
     (let mainQuery = Job_findAll_mainQuery;
          mainQuery =
            (if length whereStatements > 0
             then mainQuery @ '' WHERE '' @ join '' AND '' whereStatements @ '' ''
             else mainQuery)
      in mainQuery @ ''ORDER BY title'')"

definition Job_findAll ::
  "db \<Rightarrow> job_filters \<Rightarrow> query list \<Rightarrow> (error + row list) \<times> query list" where
  "Job_findAll db filterOptions log =
     (let (whereStatements, whereValues) = Job_findAll_wheres filterOptions in
      db_query db (Job_findAll_query whereStatements, whereValues) log)"

definition Job_get_sql :: string where
  "Job_get_sql =
   ''SELECT id,'' @ [NL] @ ''                  title,'' @ [NL] @
    ''                  salary,'' @ [NL] @ ''                  equity,'' @ [NL] @
    ''                  company_handle AS '' @ [DQ] @ ''companyHandle'' @ [DQ] @ [NL] @
    ''           FROM jobs'' @ [NL] @ ''           WHERE id = $1''"

definition Job_get_company_sql :: string where
  "Job_get_company_sql =
   ''SELECT handle,'' @ [NL] @ ''                    name,'' @ [NL] @
    ''                    description,'' @ [NL] @ ''                    num_employees AS '' @
    [DQ] @ ''numEmployees'' @ [DQ] @ '','' @ [NL] @ ''                    logo_url AS '' @
    [DQ] @ ''logoUrl'' @ [DQ] @ [NL] @ ''            FROM companies'' @ [NL] @
    ''            WHERE handle = $1''"

text \<open>\<open>get\<close> deletes \<open>companyHandle\<close> from the job row and sets its \<open>company\<close> property
  to the first row of the second query (\<open>undefined\<close> when there is none): here the pair
  of the row and that optional row.\<close>

definition Job_get ::
  "db \<Rightarrow> jsval \<Rightarrow> query list \<Rightarrow> (error + row \<times> row option) \<times> query list" where
  "Job_get db id' log =
     (case db_query db (Job_get_sql, [id']) log of
        (Inl e, log1) \<Rightarrow> (Inl e, log1)
      | (Inr jobRes, log1) \<Rightarrow>
          (case first_row jobRes of
             None \<Rightarrow> (Inl (NotFoundError (Message (''No job: '' @ to_string id'))), log1)
           | Some job \<Rightarrow>
               (case db_query db (Job_get_company_sql, [object_get job ''companyHandle'']) log1 of
                  (Inl e, log2) \<Rightarrow> (Inl e, log2)
                | (Inr companyRes, log2) \<Rightarrow>
                    (Inr (filter (\<lambda>(k, v). k \<noteq> ''companyHandle'') job, first_row companyRes),
                     log2))))"

definition Job_update_querySql :: "string \<Rightarrow> string \<Rightarrow> string" where
  "Job_update_querySql setCols' idVarIdx =
   ''UPDATE jobs'' @ [NL] @ ''                      SET '' @ setCols' @ '' '' @ [NL] @
    ''                      WHERE id = '' @ idVarIdx @ '' '' @ [NL] @
    ''                      RETURNING id, '' @ [NL] @
    ''                                title, '' @ [NL] @
    ''                                salary, '' @ [NL] @
    ''                                equity, '' @ [NL] @
    ''                                company_handle AS '' @ [DQ] @ ''companyHandle'' @ [DQ]"

definition Job_update ::
  "db \<Rightarrow> jsval \<Rightarrow> js_object \<Rightarrow> query list \<Rightarrow> (error + row) \<times> query list" where
  "Job_update db id' data log =
     (case sqlForPartialUpdate data (object_get []) of
        Inl e \<Rightarrow> (Inl e, log)
      | Inr r \<Rightarrow>
          (let idVarIdx = ''$'' @ string_of_nat (length (vals r) + 1);
               querySql = Job_update_querySql (setCols r) idVarIdx
           in case db_query db (querySql, vals r @ [id']) log of
                (Inl e, log1) \<Rightarrow> (Inl e, log1)
              | (Inr result, log1) \<Rightarrow>
                  (case first_row result of
                     None \<Rightarrow>
                       (Inl (NotFoundError (Message (''Job not found: '' @ to_string id'))), log1)
                   | Some job \<Rightarrow> (Inr job, log1))))"

definition Job_remove_sql :: string where
  "Job_remove_sql =
   ''DELETE'' @ [NL] @ ''           FROM jobs'' @ [NL] @ ''           WHERE id = $1'' @ [NL] @
    ''           RETURNING id''"

definition Job_remove ::
  "db \<Rightarrow> jsval \<Rightarrow> query list \<Rightarrow> (error + unit) \<times> query list" where
  "Job_remove db id' log =
     (case db_query db (Job_remove_sql, [id']) log of
        (Inl e, log1) \<Rightarrow> (Inl e, log1)
      | (Inr result, log1) \<Rightarrow>
          (case first_row result of
             None \<Rightarrow> (Inl (NotFoundError (Message (''No job: '' @ to_string id'))), log1)
           | Some job \<Rightarrow> (Inr (), log1)))"


section \<open>routes/jobs.js\<close>

text \<open>
  Modelled from the spec: the validator is the package \<open>jsonschema\<close>, which is not part
  of the repository. The specification gives its contract: it takes a payload and a
  declarative schema (required fields, per-field type, string length bounds, numeric
  minimums, pattern constraints, and whether fields outside the schema are allowed) and
  returns a verdict with its list of errors; the payload is valid when there is none. A
  payload is a flat object here.
\<close>

datatype json_type = TString | TInteger

record property_schema =
  ptype :: json_type
  minimum :: "int option"
  minLength :: "nat option"
  pattern :: "(string \<Rightarrow> bool) option"

record schema =
  required :: "string list"
  properties :: "(string \<times> property_schema) list"
  additionalProperties :: bool

definition property_valid :: "property_schema \<Rightarrow> jsval \<Rightarrow> bool" where
  "property_valid p v =
     (case (ptype p, v) of
        (TString, JStr s) \<Rightarrow>
          (case minLength p of None \<Rightarrow> True | Some n \<Rightarrow> n \<le> length s) \<and>
          (case pattern p of None \<Rightarrow> True | Some re \<Rightarrow> re s)
      | (TInteger, JNum n) \<Rightarrow> (case minimum p of None \<Rightarrow> True | Some m \<Rightarrow> m \<le> n)
      | _ \<Rightarrow> False)"

definition validate :: "js_object \<Rightarrow> schema \<Rightarrow> validation_error list" where
  "validate instance sch =
     [MissingProperty k. k \<leftarrow> required sch, object_get instance k = JUndefined] @
     [InvalidProperty k. (k, p) \<leftarrow> properties sch, object_get instance k \<noteq> JUndefined,
        \<not> property_valid p (object_get instance k)] @
     (if additionalProperties sch then []
      else [AdditionalProperty k. k \<leftarrow> map fst instance, map_of (properties sch) k = None])"

text \<open>The regular expression \<open>0|(0?\.[0-9]+)\<close> of the equity property, searched anywhere
  in the string as the validator does: some position holds \<open>0\<close>, or a dot and a digit.\<close>

definition is_digit :: "char \<Rightarrow> bool" where
  "is_digit c = (c \<in> set ''0123456789'')"

fun equity_pattern :: "string \<Rightarrow> bool" where
  "equity_pattern [] = False"
| "equity_pattern (c # cs) =
     (c = CHR ''0'' \<or> (c = CHR ''.'' \<and> (case cs of [] \<Rightarrow> False | d # _ \<Rightarrow> is_digit d))
      \<or> equity_pattern cs)"

text \<open>
  Modelled from the spec: the file \<open>schemas/jobUpdate.json\<close> that the route requires is
  missing. The specification describes it as the job-update shape: all fields optional,
  the same constraints as the job-create shape (whose file \<open>jobNew.json\<close> gives title a
  minimum length of 1, salary a minimum of 0 and equity its pattern), and unknown fields
  rejected. Its fields are the ones the route documents: title, salary, equity.
\<close>

definition jobUpdateSchema :: schema where
  "jobUpdateSchema =
     \<lparr>required = [],
      properties =
        [(''title'', \<lparr>ptype = TString, minimum = None, minLength = Some 1, pattern = None\<rparr>),
         (''salary'', \<lparr>ptype = TInteger, minimum = Some 0, minLength = None, pattern = None\<rparr>),
         (''equity'', \<lparr>ptype = TString, minimum = None, minLength = None,
                        pattern = Some equity_pattern\<rparr>)],
      additionalProperties = False\<rparr>"

text \<open>The handler of \<open>PATCH /jobs/:id\<close>, which runs once \<open>ensureIsAdmin\<close> has let the
  request through: \<open>id_param\<close> is \<open>req.params.id\<close>, a string, and \<open>body\<close> is \<open>req.body\<close>.
  An error is what the handler passes to \<open>next\<close>.\<close>

definition jobs_patch ::
  "db \<Rightarrow> string \<Rightarrow> js_object \<Rightarrow> query list \<Rightarrow> (error + row) \<times> query list" where
  "jobs_patch db id_param body log =
     (let errs = validate body jobUpdateSchema in
      if errs \<noteq> [] then (Inl (BadRequestError (ValidationErrors errs)), log)
      else Job_update db (JStr id_param) body log)"

section \<open>Error kinds and sample storages\<close>

fun is_bad_request :: "error + 'a \<Rightarrow> bool" where
  "is_bad_request (Inl (BadRequestError m)) = True"
| "is_bad_request _ = False"

fun is_not_found :: "error + 'a \<Rightarrow> bool" where
  "is_not_found (Inl (NotFoundError m)) = True"
| "is_not_found _ = False"

text \<open>A storage that answers every statement with the same rows.\<close>

definition constant_db :: "row list \<Rightarrow> db" where
  "constant_db rows log q = Inr rows"

section \<open>The partial-update builder\<close>

lemma length_partial_update_cols:
  "length (partial_update_cols jsToSql keys) = length keys"
  by (simp add: partial_update_cols_def)

lemma nth_partial_update_cols:
  "i < length keys \<Longrightarrow>
   partial_update_cols jsToSql keys ! i = assignment jsToSql i (keys ! i)"
  by (simp add: partial_update_cols_def nth_enumerate_eq)

lemma sqlForPartialUpdate_nonempty:
  "dataToUpdate \<noteq> [] \<Longrightarrow>
   sqlForPartialUpdate dataToUpdate jsToSql =
     Inr \<lparr>setCols = join '', '' (partial_update_cols jsToSql (map fst dataToUpdate)),
          vals = map snd dataToUpdate\<rparr>"
  by (simp add: sqlForPartialUpdate_def Let_def)

lemma sqlForPartialUpdate_empty:
  "sqlForPartialUpdate [] jsToSql = Inl (BadRequestError (Message ''No data''))"
  by (simp add: sqlForPartialUpdate_def)

lemma partial_update_cols_upt:
  "partial_update_cols jsToSql (map fst dataToUpdate) =
     map (\<lambda>i. [DQ] @ column_name jsToSql (fst (dataToUpdate ! i)) @ [DQ] @ ''=$''
                 @ string_of_nat (i + 1)) [0..<length dataToUpdate]"
  by (rule nth_equalityI) (simp_all add: length_partial_update_cols nth_partial_update_cols
      assignment_def)

text \<open>
  What the builder does for every non-empty mapping and every table: one fragment per
  key, in the order of the keys, the fragment at index \<open>i\<close> being \<open>"<column>"=$<i+1>\<close>,
  and the values in the same order. The column is the key when the read
  \<open>jsToSql[colName]\<close> is \<open>undefined\<close> or another falsy value, and the string of what was
  read otherwise.
\<close>

lemma partial_update_fragments:
  "dataToUpdate \<noteq> [] \<Longrightarrow>
   sqlForPartialUpdate dataToUpdate jsToSql =
     Inr \<lparr>setCols = join '', ''
            (map (\<lambda>i. [DQ] @ column_name jsToSql (fst (dataToUpdate ! i)) @ [DQ] @ ''=$''
                        @ string_of_nat (i + 1)) [0..<length dataToUpdate]),
          vals = map snd dataToUpdate\<rparr>"
  by (simp add: sqlForPartialUpdate_nonempty partial_update_cols_upt)

lemma column_name_cases:
  "column_name jsToSql k = (if truthy (jsToSql k) then to_string (jsToSql k) else k)"
  by (simp add: column_name_def js_or_def)

text \<open>
  C1. The clause that a field absent from \<open>jsToSql\<close> uses its own name fails for a field
  named like a member of \<open>Object.prototype\<close>: the table \<open>{}\<close> has no property
  \<open>constructor\<close> of its own, the read \<open>jsToSql[colName]\<close> finds the inherited function
  \<open>Object\<close>, which is truthy, and the column is the text of that function, not the name
  of the field. The same happens with the table of \<open>Company.update\<close> and the field
  \<open>toString\<close>. The specification's example, whose field is in the table, evaluates as
  stated.
\<close>

theorem sqlForPartialUpdate_inherited_key:
  "map_of ([] :: js_object) ''constructor'' = None
   \<and> sqlForPartialUpdate [(''constructor'', JStr ''x'')] (object_get []) =
       Inr \<lparr>setCols = [DQ] @ ''function Object() { [native code] }'' @ [DQ] @ ''=$1'',
            vals = [JStr ''x'']\<rparr>
   \<and> map_of Company_update_jsToSql ''toString'' = None
   \<and> sqlForPartialUpdate [(''name'', JStr ''New''), (''toString'', JStr ''x'')]
         (object_get Company_update_jsToSql) =
       Inr \<lparr>setCols = [DQ] @ ''name'' @ [DQ] @ ''=$1, '' @ [DQ]
                      @ ''function toString() { [native code] }'' @ [DQ] @ ''=$2'',
            vals = [JStr ''New'', JStr ''x'']\<rparr>
   \<and> sqlForPartialUpdate [(''keyName'', JStr ''val'')]
         (object_get [(''keyName'', JStr ''key_name'')]) =
       Inr \<lparr>setCols = [DQ] @ ''key_name'' @ [DQ] @ ''=$1'', vals = [JStr ''val'']\<rparr>"
  by (simp add: sqlForPartialUpdate_def partial_update_cols_def assignment_def
      column_name_def js_or_def object_get_def Object_prototype_def Company_update_jsToSql_def
      string_of_nat.simps digit_char_def)

section \<open>Partial updates of a company and of a job\<close>

lemma Company_update_nonempty:
  "data \<noteq> [] \<Longrightarrow>
   Company_update db handle data log =
     (let cols = partial_update_cols (object_get Company_update_jsToSql) (map fst data);
          q = (Company_update_querySql (join '', '' cols)
                 (''$'' @ string_of_nat (length cols + 1)), map snd data @ [handle])
      in case db log q of
           Inl e \<Rightarrow> (Inl e, log @ [q])
         | Inr result \<Rightarrow>
             (case result of
                [] \<Rightarrow> (Inl (NotFoundError (Message (''No company: '' @ to_string handle))),
                       log @ [q])
              | company # _ \<Rightarrow> (Inr company, log @ [q])))"
  by (simp add: Company_update_def sqlForPartialUpdate_nonempty Let_def db_query_def
      first_row_def length_partial_update_cols split: sum.splits list.splits)

lemma Job_update_nonempty:
  "data \<noteq> [] \<Longrightarrow>
   Job_update db id' data log =
     (let cols = partial_update_cols (object_get []) (map fst data);
          q = (Job_update_querySql (join '', '' cols)
                 (''$'' @ string_of_nat (length cols + 1)), map snd data @ [id'])
      in case db log q of
           Inl e \<Rightarrow> (Inl e, log @ [q])
         | Inr result \<Rightarrow>
             (case result of
                [] \<Rightarrow> (Inl (NotFoundError (Message (''Job not found: '' @ to_string id'))),
                       log @ [q])
              | job # _ \<Rightarrow> (Inr job, log @ [q])))"
  by (simp add: Job_update_def sqlForPartialUpdate_nonempty Let_def db_query_def
      first_row_def length_partial_update_cols split: sum.splits list.splits)

lemma Company_update_empty:
  "Company_update db handle [] log = (Inl (BadRequestError (Message ''No data'')), log)"
  by (simp add: Company_update_def sqlForPartialUpdate_empty)

lemma Job_update_empty:
  "Job_update db id' [] log = (Inl (BadRequestError (Message ''No data'')), log)"
  by (simp add: Job_update_def sqlForPartialUpdate_empty)

text \<open>
  C2. With an empty field mapping \<open>sqlForPartialUpdate\<close> fails with the bad-request error
  \<open>No data\<close>, whatever the translation table. \<open>Company.update\<close> and \<open>Job.update\<close> with
  an empty partial-data object fail with that error and leave the list of queries as it
  was: no storage call is made. The builder does not look at the values: every non-empty
  mapping is accepted, and its values are returned as they are.
\<close>

theorem update_empty_bad_request:
  "sqlForPartialUpdate [] jsToSql = Inl (BadRequestError (Message ''No data''))
   \<and> Company_update db handle [] log = (Inl (BadRequestError (Message ''No data'')), log)
   \<and> Job_update db id' [] log = (Inl (BadRequestError (Message ''No data'')), log)
   \<and> (dataToUpdate \<noteq> [] \<longrightarrow>
        (\<exists>r. sqlForPartialUpdate dataToUpdate jsToSql = Inr r \<and> vals r = map snd dataToUpdate))"
  by (simp add: sqlForPartialUpdate_empty Company_update_empty Job_update_empty
      sqlForPartialUpdate_nonempty)

theorem update_empty_bad_request_witness:
  "is_bad_request (sqlForPartialUpdate [] (object_get []))
   \<and> Company_update (constant_db [[(''id'', JNum 1)]]) (JStr ''c1'') [] [] =
       (Inl (BadRequestError (Message ''No data'')), [])
   \<and> Job_update (constant_db [[(''id'', JNum 1)]]) (JNum 1) [] [] =
       (Inl (BadRequestError (Message ''No data'')), [])
   \<and> (\<exists>r. sqlForPartialUpdate [(''salary'', JStr ''not a number'')] (object_get []) = Inr r
          \<and> vals r = [JStr ''not a number''])"
  using update_empty_bad_request
    [where jsToSql = "object_get []" and db = "constant_db [[(''id'', JNum 1)]]"
       and handle = "JStr ''c1''" and log = "[]" and id' = "JNum 1"
       and dataToUpdate = "[(''salary'', JStr ''not a number'')]"]
  by simp

text \<open>
  C6. For a non-empty partial update, \<open>Company.update\<close> and \<open>Job.update\<close> make one
  storage call. With \<open>n\<close> fields the builder gives \<open>n\<close> fragments, whose placeholders
  are \<open>$1\<close> to \<open>$n\<close>, and \<open>n\<close> values. The statement sent is \<open>UPDATE ... SET\<close>, the
  fragments, then \<open>WHERE handle = $\<close> (for a job \<open>WHERE id = $\<close>) followed by \<open>n + 1\<close>,
  then the \<open>RETURNING\<close> list; the bind values sent are the builder's values followed by
  the identifier, which is thus the value at position \<open>n + 1\<close>. The result is the first
  row of the answer, a not-found error when there is none, and the storage's error when
  it raises one.
\<close>

theorem update_appends_identifier:
  "data \<noteq> [] \<longrightarrow>
     (let n = length data;
          values = map snd data;
          ccols = map (\<lambda>i. [DQ] @ column_name (object_get Company_update_jsToSql)
                                   (fst (data ! i)) @ [DQ] @ ''=$'' @ string_of_nat (i + 1))
                    [0..<n];
          jcols = map (\<lambda>i. [DQ] @ column_name (object_get []) (fst (data ! i)) @ [DQ]
                              @ ''=$'' @ string_of_nat (i + 1))
                    [0..<n];
          cq = (''UPDATE companies '' @ [NL] @ ''                      SET '' @ join '', '' ccols @ '' '' @
                [NL] @ ''                      WHERE handle = '' @ ''$'' @ string_of_nat (n + 1) @ '' '' @ [NL] @
                ''                      RETURNING handle, '' @ [NL] @
                ''                                name, '' @ [NL] @
                ''                                description, '' @ [NL] @
                ''                                num_employees AS '' @ [DQ] @ ''numEmployees'' @ [DQ] @
                '', '' @ [NL] @ ''                                logo_url AS '' @ [DQ] @ ''logoUrl'' @
                [DQ],
                values @ [handle]);
          jq = (''UPDATE jobs'' @ [NL] @ ''                      SET '' @ join '', '' jcols @ '' '' @ [NL] @
                ''                      WHERE id = '' @ ''$'' @ string_of_nat (n + 1) @ '' '' @ [NL] @
                ''                      RETURNING id, '' @ [NL] @
                ''                                title, '' @ [NL] @
                ''                                salary, '' @ [NL] @
                ''                                equity, '' @ [NL] @
                ''                                company_handle AS '' @ [DQ] @ ''companyHandle'' @ [DQ],
                values @ [id'])
      in sqlForPartialUpdate data (object_get Company_update_jsToSql) =
           Inr \<lparr>setCols = join '', '' ccols, vals = values\<rparr>
       \<and> sqlForPartialUpdate data (object_get []) =
           Inr \<lparr>setCols = join '', '' jcols, vals = values\<rparr>
       \<and> length ccols = n \<and> length jcols = n \<and> length values = n
       \<and> Company_update db handle data log =
           (case db log cq of
              Inl e \<Rightarrow> Inl e
            | Inr [] \<Rightarrow> Inl (NotFoundError (Message (''No company: '' @ to_string handle)))
            | Inr (company # _) \<Rightarrow> Inr company,
            log @ [cq])
       \<and> Job_update db id' data log =
           (case db log jq of
              Inl e \<Rightarrow> Inl e
            | Inr [] \<Rightarrow> Inl (NotFoundError (Message (''Job not found: '' @ to_string id')))
            | Inr (job # _) \<Rightarrow> Inr job,
            log @ [jq]))"
  by (simp add: Let_def partial_update_fragments Company_update_nonempty Job_update_nonempty
      partial_update_cols_upt Company_update_querySql_def Job_update_querySql_def
      split: sum.splits list.splits)

theorem update_appends_identifier_witness:
  "Company_update (constant_db [[(''handle'', JStr ''c1'')]]) (JStr ''c1'')
     [(''name'', JStr ''New''), (''numEmployees'', JNum 10)] [] =
     (Inr [(''handle'', JStr ''c1'')],
      [(''UPDATE companies '' @ [NL] @ ''                      SET '' @ [DQ] @ ''name'' @ [DQ] @ ''=$1, '' @ [DQ] @ ''num_employees'' @ [DQ] @ ''=$2'' @ '' '' @
        [NL] @ ''                      WHERE handle = '' @ ''$3'' @ '' '' @ [NL] @
        ''                      RETURNING handle, '' @ [NL] @
        ''                                name, '' @ [NL] @
        ''                                description, '' @ [NL] @
        ''                                num_employees AS '' @ [DQ] @ ''numEmployees'' @ [DQ] @
        '', '' @ [NL] @ ''                                logo_url AS '' @ [DQ] @ ''logoUrl'' @
        [DQ],
        [JStr ''New'', JNum 10, JStr ''c1''])])
   \<and> Job_update (constant_db [[(''handle'', JStr ''c1'')]]) (JNum 7)
     [(''title'', JStr ''New''), (''salary'', JNum 10)] [] =
     (Inr [(''handle'', JStr ''c1'')],
      [(''UPDATE jobs'' @ [NL] @ ''                      SET '' @ [DQ] @ ''title'' @ [DQ] @ ''=$1, '' @ [DQ] @ ''salary'' @ [DQ] @ ''=$2'' @ '' '' @ [NL] @
        ''                      WHERE id = '' @ ''$3'' @ '' '' @ [NL] @
        ''                      RETURNING id, '' @ [NL] @
        ''                                title, '' @ [NL] @
        ''                                salary, '' @ [NL] @
        ''                                equity, '' @ [NL] @
        ''                                company_handle AS '' @ [DQ] @ ''companyHandle'' @ [DQ],
        [JStr ''New'', JNum 10, JNum 7])])"
  using update_appends_identifier
    [where data = "[(''name'', JStr ''New''), (''numEmployees'', JNum 10)]"
       and db = "constant_db [[(''handle'', JStr ''c1'')]]" and handle = "JStr ''c1''"
       and log = "[]" and id' = "JNum 7"]
    update_appends_identifier
    [where data = "[(''title'', JStr ''New''), (''salary'', JNum 10)]"
       and db = "constant_db [[(''handle'', JStr ''c1'')]]" and handle = "JStr ''c1''"
       and log = "[]" and id' = "JNum 7"]
  by (simp add: Let_def column_name_def js_or_def constant_db_def upt_rec
      object_get_def Object_prototype_def Company_update_jsToSql_def string_of_nat.simps
      digit_char_def)

section \<open>Filtered listings\<close>

lemma Company_findAll_wheres_eq:
  "Company_findAll_wheres f =
     ((case minEmployees f of None \<Rightarrow> [] | Some m \<Rightarrow> [''num_employees >= $1'']) @
      (case maxEmployees f of None \<Rightarrow> []
       | Some m \<Rightarrow> [''num_employees <= $'' @
           string_of_nat (length (case minEmployees f of None \<Rightarrow> [] | Some m \<Rightarrow> [JNum m]) + 1)]) @
      (if truthy (name f) then
         [''name ILIKE $'' @ string_of_nat
            (length ((case minEmployees f of None \<Rightarrow> [] | Some m \<Rightarrow> [JNum m]) @
                     (case maxEmployees f of None \<Rightarrow> [] | Some m \<Rightarrow> [JNum m])) + 1)]
       else []),
      (case minEmployees f of None \<Rightarrow> [] | Some m \<Rightarrow> [JNum m]) @
      (case maxEmployees f of None \<Rightarrow> [] | Some m \<Rightarrow> [JNum m]) @
      (if truthy (name f) then [JStr (''%'' @ to_string (name f) @ ''%'')] else []))"
  by (simp add: Company_findAll_wheres_def string_of_nat.simps digit_char_def split: option.splits)

lemma Job_findAll_wheres_eq:
  "Job_findAll_wheres f =
     ((case minSalary f of None \<Rightarrow> [] | Some m \<Rightarrow> [''salary >= $1'']) @
      (if hasEquity f = JBool True then [''equity > 0''] else []) @
      (if title f \<noteq> JUndefined then
         [''title ILIKE $'' @ string_of_nat
            (length (case minSalary f of None \<Rightarrow> [] | Some m \<Rightarrow> [JNum m]) + 1)]
       else []),
      (case minSalary f of None \<Rightarrow> [] | Some m \<Rightarrow> [JNum m]) @
      (if title f \<noteq> JUndefined then [JStr (''%'' @ to_string (title f) @ ''%'')] else []))"
  by (simp add: Job_findAll_wheres_def string_of_nat.simps digit_char_def split: option.splits)

lemma Company_findAll_query_Nil:
  "Company_findAll_query [] = Company_findAll_mainQuery @ ''ORDER BY name''"
  by (simp add: Company_findAll_query_def)

lemma Company_findAll_query_Cons:
  "ws \<noteq> [] \<Longrightarrow> Company_findAll_query ws =
     Company_findAll_mainQuery @ '' WHERE '' @ join '' AND '' ws @ ''ORDER BY name''"
  by (simp add: Company_findAll_query_def)

lemma Job_findAll_query_Nil:
  "Job_findAll_query [] = Job_findAll_mainQuery @ ''ORDER BY title''"
  by (simp add: Job_findAll_query_def)

lemma Job_findAll_query_Cons:
  "ws \<noteq> [] \<Longrightarrow> Job_findAll_query ws =
     Job_findAll_mainQuery @ '' WHERE '' @ join '' AND '' ws @ '' '' @ ''ORDER BY title''"
  by (simp add: Job_findAll_query_def)

lemma Company_no_where: "\<not> sublist ''WHERE'' (Company_findAll_mainQuery @ ''ORDER BY name'')"
  unfolding Company_findAll_mainQuery_def by code_simp

lemma Job_no_where: "\<not> sublist ''WHERE'' (Job_findAll_mainQuery @ ''ORDER BY title'')"
  unfolding Job_findAll_mainQuery_def by code_simp

text \<open>
  C3. When \<open>minEmployees\<close> and \<open>maxEmployees\<close> are both given and the first is greater,
  \<open>Company.findAll\<close> fails with a bad-request error whatever \<open>name\<close> is; the check comes
  first, so nothing is pushed and no statement reaches the storage.
\<close>

theorem Company_findAll_min_gt_max:
  "minEmployees filterOptions = Some a \<Longrightarrow> maxEmployees filterOptions = Some b \<Longrightarrow> a > b \<Longrightarrow>
   Company_findAll db filterOptions log =
     (Inl (BadRequestError (Message
        ''Minimum number of employees must not be greater than maximum!'')), log)"
  by (simp add: Company_findAll_def js_gt_def)

theorem Company_findAll_min_gt_max_witness:
  "Company_findAll (constant_db [[(''handle'', JStr ''c1'')]])
     \<lparr>minEmployees = Some 3, maxEmployees = Some 2, name = JStr ''c''\<rparr> [] =
     (Inl (BadRequestError (Message
        ''Minimum number of employees must not be greater than maximum!'')), [])"
  using Company_findAll_min_gt_max
    [of "\<lparr>minEmployees = Some 3, maxEmployees = Some 2, name = JStr ''c''\<rparr>" 3 2
        "constant_db [[(''handle'', JStr ''c1'')]]" "[]"]
  by simp

lemma Job_findAll_closed:
  "Job_findAll db f log =
     (let frags =
            (case minSalary f of None \<Rightarrow> [] | Some m \<Rightarrow> [''salary >= $1'']) @
            (if hasEquity f = JBool True then [''equity > 0''] else []) @
            (if title f \<noteq> JUndefined then
               [''title ILIKE $'' @ string_of_nat
                  (length (case minSalary f of None \<Rightarrow> [] | Some m \<Rightarrow> [JNum m]) + 1)]
             else []);
          q = (Job_findAll_mainQuery
                 @ (if frags = [] then [] else '' WHERE '' @ join '' AND '' frags @ '' '')
                 @ ''ORDER BY title'',
               (case minSalary f of None \<Rightarrow> [] | Some m \<Rightarrow> [JNum m]) @
               (if title f \<noteq> JUndefined then [JStr (''%'' @ to_string (title f) @ ''%'')]
                else []))
      in (db log q, log @ [q]))"
  by (simp add: Job_findAll_def Job_findAll_wheres_eq Job_findAll_query_def db_query_def
      Let_def split: option.splits)

text \<open>
  C4. What \<open>Job.findAll\<close> sends to the storage, by the value of \<open>hasEquity\<close>. When it is
  the boolean \<open>true\<close>, the statement has a \<open>WHERE\<close> clause whose fragments are the salary
  fragment (when \<open>minSalary\<close> is given), then \<open>equity > 0\<close>, then the title fragment (when
  \<open>title\<close> is given), and the bind values are those of salary and title only: the equity
  fragment has no placeholder and no value, and the title placeholder counts the values,
  not the fragments. For any other value, \<open>false\<close> and \<open>undefined\<close> included, the
  fragments are those of salary and title alone, with the same bind values, there is
  no \<open>WHERE\<close> clause when neither is given, and the call is the call made with
  \<open>hasEquity\<close> absent.
\<close>

theorem Job_findAll_hasEquity:
  "(hasEquity f = JBool True \<longrightarrow>
      (let q = (''SELECT j.id, j.title, j.salary, j.equity, j.company_handle as '' @ [DQ] @
                ''companyHandle'' @ [DQ] @ '', c.name AS '' @ [DQ] @ ''companyName'' @ [DQ] @ [NL] @
                ''        FROM jobs j '' @ [NL] @ ''        LEFT JOIN companies AS c'' @ [NL] @
                ''        ON c.handle = j.company_handle ''
                 @ '' WHERE ''
                 @ join '' AND ''
                     ((case minSalary f of None \<Rightarrow> [] | Some m \<Rightarrow> [''salary >= $1'']) @
                      [''equity > 0''] @
                      (if title f \<noteq> JUndefined then
                         [''title ILIKE $'' @ string_of_nat
                            (length (case minSalary f of None \<Rightarrow> [] | Some m \<Rightarrow> [JNum m]) + 1)]
                       else []))
                 @ '' '' @ ''ORDER BY title'',
                (case minSalary f of None \<Rightarrow> [] | Some m \<Rightarrow> [JNum m]) @
                (if title f \<noteq> JUndefined then [JStr (''%'' @ to_string (title f) @ ''%'')]
                 else []))
       in Job_findAll db f log = (db log q, log @ [q])))
   \<and> (hasEquity f \<noteq> JBool True \<longrightarrow>
      (let frags =
             (case minSalary f of None \<Rightarrow> [] | Some m \<Rightarrow> [''salary >= $1'']) @
             (if title f \<noteq> JUndefined then
                [''title ILIKE $'' @ string_of_nat
                   (length (case minSalary f of None \<Rightarrow> [] | Some m \<Rightarrow> [JNum m]) + 1)]
              else []);
           q = (''SELECT j.id, j.title, j.salary, j.equity, j.company_handle as '' @ [DQ] @
                ''companyHandle'' @ [DQ] @ '', c.name AS '' @ [DQ] @ ''companyName'' @ [DQ] @ [NL] @
                ''        FROM jobs j '' @ [NL] @ ''        LEFT JOIN companies AS c'' @ [NL] @
                ''        ON c.handle = j.company_handle ''
                 @ (if frags = [] then [] else '' WHERE '' @ join '' AND '' frags @ '' '')
                 @ ''ORDER BY title'',
                (case minSalary f of None \<Rightarrow> [] | Some m \<Rightarrow> [JNum m]) @
                (if title f \<noteq> JUndefined then [JStr (''%'' @ to_string (title f) @ ''%'')]
                 else []))
       in Job_findAll db f log = (db log q, log @ [q])
        \<and> Job_findAll db f log = Job_findAll db (f\<lparr>hasEquity := JUndefined\<rparr>) log))"
  by (simp add: Job_findAll_closed Job_findAll_mainQuery_def Let_def split: option.splits)

theorem Job_findAll_hasEquity_witness:
  "Job_findAll (constant_db [])
     \<lparr>title = JStr ''dev'', minSalary = Some 200, hasEquity = JBool True\<rparr> [] =
     (Inr [],
      [(''SELECT j.id, j.title, j.salary, j.equity, j.company_handle as '' @ [DQ] @
        ''companyHandle'' @ [DQ] @ '', c.name AS '' @ [DQ] @ ''companyName'' @ [DQ] @ [NL] @
        ''        FROM jobs j '' @ [NL] @ ''        LEFT JOIN companies AS c'' @ [NL] @
        ''        ON c.handle = j.company_handle ''
          @ '' WHERE salary >= $1 AND equity > 0 AND title ILIKE $2 ORDER BY title'',
        [JNum 200, JStr ''%dev%''])])
   \<and> Job_findAll (constant_db [])
     \<lparr>title = JStr ''dev'', minSalary = Some 200, hasEquity = JBool False\<rparr> [] =
     (Inr [],
      [(''SELECT j.id, j.title, j.salary, j.equity, j.company_handle as '' @ [DQ] @
        ''companyHandle'' @ [DQ] @ '', c.name AS '' @ [DQ] @ ''companyName'' @ [DQ] @ [NL] @
        ''        FROM jobs j '' @ [NL] @ ''        LEFT JOIN companies AS c'' @ [NL] @
        ''        ON c.handle = j.company_handle ''
          @ '' WHERE salary >= $1 AND title ILIKE $2 ORDER BY title'',
        [JNum 200, JStr ''%dev%''])])
   \<and> Job_findAll (constant_db [])
     \<lparr>title = JUndefined, minSalary = None, hasEquity = JStr ''true''\<rparr> [] =
     (Inr [],
      [(''SELECT j.id, j.title, j.salary, j.equity, j.company_handle as '' @ [DQ] @
        ''companyHandle'' @ [DQ] @ '', c.name AS '' @ [DQ] @ ''companyName'' @ [DQ] @ [NL] @
        ''        FROM jobs j '' @ [NL] @ ''        LEFT JOIN companies AS c'' @ [NL] @
        ''        ON c.handle = j.company_handle ''
          @ ''ORDER BY title'',
        [])])"
  using Job_findAll_hasEquity
    [where f = "\<lparr>title = JStr ''dev'', minSalary = Some 200, hasEquity = JBool True\<rparr>"
       and db = "constant_db []" and log = "[]"]
    Job_findAll_hasEquity
    [where f = "\<lparr>title = JStr ''dev'', minSalary = Some 200, hasEquity = JBool False\<rparr>"
       and db = "constant_db []" and log = "[]"]
    Job_findAll_hasEquity
    [where f = "\<lparr>title = JUndefined, minSalary = None, hasEquity = JStr ''true''\<rparr>"
       and db = "constant_db []" and log = "[]"]
  by (simp add: Let_def constant_db_def string_of_nat.simps digit_char_def)

text \<open>
  C5. The fragments and bind values of both listings, criterion by criterion. For
  companies: the lower bound, then the upper bound, then the name match; for jobs: the
  salary bound, then the equity test, then the title match. A criterion that is
  \<open>undefined\<close> contributes nothing, and each placeholder is the position of its value
  among the bind values. With at least one fragment the statement is the main query, then
  \<open>WHERE\<close> and the fragments joined by \<open>AND\<close>, then the ordering (the company statement
  puts no space between the last fragment and \<open>ORDER BY\<close>, the job statement puts one);
  with no criterion the statement is the main query and the ordering, and the word
  \<open>WHERE\<close> does not occur in it.
\<close>

theorem findAll_fragments_in_order:
  "Company_findAll_wheres c =
     ((case minEmployees c of None \<Rightarrow> [] | Some m \<Rightarrow> [''num_employees >= $1'']) @
      (case maxEmployees c of None \<Rightarrow> []
       | Some m \<Rightarrow> [''num_employees <= $'' @
           string_of_nat (length (case minEmployees c of None \<Rightarrow> [] | Some m \<Rightarrow> [JNum m]) + 1)]) @
      (if truthy (name c) then
         [''name ILIKE $'' @ string_of_nat
            (length ((case minEmployees c of None \<Rightarrow> [] | Some m \<Rightarrow> [JNum m]) @
                     (case maxEmployees c of None \<Rightarrow> [] | Some m \<Rightarrow> [JNum m])) + 1)]
       else []),
      (case minEmployees c of None \<Rightarrow> [] | Some m \<Rightarrow> [JNum m]) @
      (case maxEmployees c of None \<Rightarrow> [] | Some m \<Rightarrow> [JNum m]) @
      (if truthy (name c) then [JStr (''%'' @ to_string (name c) @ ''%'')] else []))
   \<and> Job_findAll_wheres j =
     ((case minSalary j of None \<Rightarrow> [] | Some m \<Rightarrow> [''salary >= $1'']) @
      (if hasEquity j = JBool True then [''equity > 0''] else []) @
      (if title j \<noteq> JUndefined then
         [''title ILIKE $'' @ string_of_nat
            (length (case minSalary j of None \<Rightarrow> [] | Some m \<Rightarrow> [JNum m]) + 1)]
       else []),
      (case minSalary j of None \<Rightarrow> [] | Some m \<Rightarrow> [JNum m]) @
      (if title j \<noteq> JUndefined then [JStr (''%'' @ to_string (title j) @ ''%'')] else []))
   \<and> (\<not> js_gt (minEmployees c) (maxEmployees c) \<longrightarrow>
        Company_findAll db c log =
          db_query db (Company_findAll_query (fst (Company_findAll_wheres c)),
                       snd (Company_findAll_wheres c)) log)
   \<and> Job_findAll db j log =
        db_query db (Job_findAll_query (fst (Job_findAll_wheres j)),
                     snd (Job_findAll_wheres j)) log
   \<and> (ws \<noteq> [] \<longrightarrow>
        Company_findAll_query ws =
          Company_findAll_mainQuery @ '' WHERE '' @ join '' AND '' ws @ ''ORDER BY name''
        \<and> Job_findAll_query ws =
          Job_findAll_mainQuery @ '' WHERE '' @ join '' AND '' ws @ '' '' @ ''ORDER BY title'')
   \<and> (minEmployees c = None \<and> maxEmployees c = None \<and> name c = JUndefined \<longrightarrow>
        Company_findAll db c log =
          db_query db (Company_findAll_mainQuery @ ''ORDER BY name'', []) log)
   \<and> (minSalary j = None \<and> hasEquity j = JUndefined \<and> title j = JUndefined \<longrightarrow>
        Job_findAll db j log =
          db_query db (Job_findAll_mainQuery @ ''ORDER BY title'', []) log)
   \<and> \<not> sublist ''WHERE'' (Company_findAll_mainQuery @ ''ORDER BY name'')
   \<and> \<not> sublist ''WHERE'' (Job_findAll_mainQuery @ ''ORDER BY title'')"
proof -
  have a: "\<not> js_gt (minEmployees c) (maxEmployees c) \<longrightarrow>
        Company_findAll db c log =
          db_query db (Company_findAll_query (fst (Company_findAll_wheres c)),
                       snd (Company_findAll_wheres c)) log"
    by (simp add: Company_findAll_def split_beta)
  have b: "Job_findAll db j log =
        db_query db (Job_findAll_query (fst (Job_findAll_wheres j)),
                     snd (Job_findAll_wheres j)) log"
    by (simp add: Job_findAll_def split_beta)
  have c0: "minEmployees c = None \<and> maxEmployees c = None \<and> name c = JUndefined \<longrightarrow>
        Company_findAll db c log =
          db_query db (Company_findAll_mainQuery @ ''ORDER BY name'', []) log"
    by (simp add: Company_findAll_def js_gt_def Company_findAll_wheres_eq
        Company_findAll_query_Nil)
  have j0: "minSalary j = None \<and> hasEquity j = JUndefined \<and> title j = JUndefined \<longrightarrow>
        Job_findAll db j log =
          db_query db (Job_findAll_mainQuery @ ''ORDER BY title'', []) log"
    by (simp add: Job_findAll_def Job_findAll_wheres_eq Job_findAll_query_Nil)
  show ?thesis
    using a b c0 j0 Company_findAll_wheres_eq [of c] Job_findAll_wheres_eq [of j]
      Company_findAll_query_Cons [of ws] Job_findAll_query_Cons [of ws]
      Company_no_where Job_no_where
    by blast
qed

theorem findAll_fragments_in_order_witness:
  "Company_findAll (constant_db [])
     \<lparr>minEmployees = None, maxEmployees = None, name = JUndefined\<rparr> [] =
     (Inr [], [(Company_findAll_mainQuery @ ''ORDER BY name'', [])])
   \<and> Job_findAll (constant_db [])
     \<lparr>title = JUndefined, minSalary = None, hasEquity = JUndefined\<rparr> [] =
     (Inr [], [(Job_findAll_mainQuery @ ''ORDER BY title'', [])])
   \<and> Company_findAll_query [''num_employees >= $1'', ''name ILIKE $2''] =
       Company_findAll_mainQuery @ '' WHERE num_employees >= $1 AND name ILIKE $2ORDER BY name''
   \<and> Job_findAll_query [''num_employees >= $1'', ''name ILIKE $2''] =
       Job_findAll_mainQuery @ '' WHERE num_employees >= $1 AND name ILIKE $2 ORDER BY title''"
  using findAll_fragments_in_order
    [where c = "\<lparr>minEmployees = None, maxEmployees = None, name = JUndefined\<rparr>"
       and j = "\<lparr>title = JUndefined, minSalary = None, hasEquity = JUndefined\<rparr>"
       and db = "constant_db []" and log = "[]"
       and ws = "[''num_employees >= $1'', ''name ILIKE $2'']"]
  by (simp add: js_gt_def db_query_def constant_db_def Company_findAll_query_Nil
      Job_findAll_query_Nil)

lemma Company_findAll_closed:
  "\<not> js_gt (minEmployees c) (maxEmployees c) \<Longrightarrow>
   Company_findAll db c log =
     (let frags =
            (case minEmployees c of None \<Rightarrow> [] | Some m \<Rightarrow> [''num_employees >= $1'']) @
            (case maxEmployees c of None \<Rightarrow> []
             | Some m \<Rightarrow> [''num_employees <= $'' @ string_of_nat
                 (length (case minEmployees c of None \<Rightarrow> [] | Some m \<Rightarrow> [JNum m]) + 1)]) @
            (if truthy (name c) then
               [''name ILIKE $'' @ string_of_nat
                  (length ((case minEmployees c of None \<Rightarrow> [] | Some m \<Rightarrow> [JNum m]) @
                           (case maxEmployees c of None \<Rightarrow> [] | Some m \<Rightarrow> [JNum m])) + 1)]
             else []);
          q = (Company_findAll_mainQuery
                 @ (if frags = [] then [] else '' WHERE '' @ join '' AND '' frags)
                 @ ''ORDER BY name'',
               (case minEmployees c of None \<Rightarrow> [] | Some m \<Rightarrow> [JNum m]) @
               (case maxEmployees c of None \<Rightarrow> [] | Some m \<Rightarrow> [JNum m]) @
               (if truthy (name c) then [JStr (''%'' @ to_string (name c) @ ''%'')] else []))
      in (db log q, log @ [q]))"
  by (simp add: Company_findAll_def Company_findAll_wheres_eq Company_findAll_query_def
      db_query_def Let_def split: option.splits)

text \<open>
  C10. A \<open>name\<close> that is falsy (the empty string, \<open>0\<close>, \<open>false\<close>, \<open>null\<close>) gives
  \<open>Company.findAll\<close> the fragments, bind values and storage call of an absent \<open>name\<close>:
  the statement sent has the fragments of the two bounds only, and the bind values are
  the bounds. In \<open>Job.findAll\<close> every \<open>title\<close> other than \<open>undefined\<close>, the empty string
  included, puts the fragment \<open>title ILIKE $n\<close> last in the \<open>WHERE\<close> clause of the
  statement sent, \<open>n\<close> being the position of its bind value, which is the title between
  two percent signs: \<open>%%\<close> for the empty string. With an \<open>undefined\<close> title there is no
  such fragment and no such value.
\<close>

theorem falsy_name_and_empty_title:
  "(\<not> truthy n \<longrightarrow>
      Company_findAll_wheres (c\<lparr>name := n\<rparr>) = Company_findAll_wheres (c\<lparr>name := JUndefined\<rparr>)
      \<and> Company_findAll db (c\<lparr>name := n\<rparr>) log = Company_findAll db (c\<lparr>name := JUndefined\<rparr>) log)
   \<and> (\<not> truthy n \<and> \<not> js_gt (minEmployees c) (maxEmployees c) \<longrightarrow>
      (let frags =
             (case minEmployees c of None \<Rightarrow> [] | Some m \<Rightarrow> [''num_employees >= $1'']) @
             (case maxEmployees c of None \<Rightarrow> []
              | Some m \<Rightarrow> [''num_employees <= $'' @ string_of_nat
                  (length (case minEmployees c of None \<Rightarrow> [] | Some m \<Rightarrow> [JNum m]) + 1)]);
           q = (''SELECT handle,'' @ [NL] @ ''                  name,'' @ [NL] @
                ''                  description,'' @ [NL] @ ''                  num_employees AS '' @
                [DQ] @ ''numEmployees'' @ [DQ] @ '','' @ [NL] @ ''                  logo_url AS '' @
                [DQ] @ ''logoUrl'' @ [DQ] @ [NL] @ ''           FROM companies'' @ [NL] @ ''           ''
                 @ (if frags = [] then [] else '' WHERE '' @ join '' AND '' frags)
                 @ ''ORDER BY name'',
                (case minEmployees c of None \<Rightarrow> [] | Some m \<Rightarrow> [JNum m]) @
                (case maxEmployees c of None \<Rightarrow> [] | Some m \<Rightarrow> [JNum m]))
       in Company_findAll db (c\<lparr>name := n\<rparr>) log = (db log q, log @ [q])))
   \<and> (Job_findAll_wheres (j\<lparr>title := JStr ''''\<rparr>) =
       (fst (Job_findAll_wheres (j\<lparr>title := JUndefined\<rparr>)) @
          [''title ILIKE $'' @
             string_of_nat (length (snd (Job_findAll_wheres (j\<lparr>title := JUndefined\<rparr>))) + 1)],
        snd (Job_findAll_wheres (j\<lparr>title := JUndefined\<rparr>)) @ [JStr ''%%'']))
   \<and> (Company_findAll_wheres (c\<lparr>name := JStr ''''\<rparr>) =
       Company_findAll_wheres (c\<lparr>name := JUndefined\<rparr>))
   \<and> (t \<noteq> JUndefined \<longrightarrow>
      (let q = (''SELECT j.id, j.title, j.salary, j.equity, j.company_handle as '' @ [DQ] @
                ''companyHandle'' @ [DQ] @ '', c.name AS '' @ [DQ] @ ''companyName'' @ [DQ] @ [NL] @
                ''        FROM jobs j '' @ [NL] @ ''        LEFT JOIN companies AS c'' @ [NL] @
                ''        ON c.handle = j.company_handle ''
                 @ '' WHERE ''
                 @ join '' AND ''
                     ((case minSalary j of None \<Rightarrow> [] | Some m \<Rightarrow> [''salary >= $1'']) @
                      (if hasEquity j = JBool True then [''equity > 0''] else []) @
                      [''title ILIKE $'' @ string_of_nat
                         (length (case minSalary j of None \<Rightarrow> [] | Some m \<Rightarrow> [JNum m]) + 1)])
                 @ '' '' @ ''ORDER BY title'',
                (case minSalary j of None \<Rightarrow> [] | Some m \<Rightarrow> [JNum m]) @
                [JStr (''%'' @ to_string t @ ''%'')])
       in Job_findAll db (j\<lparr>title := t\<rparr>) log = (db log q, log @ [q])))
   \<and> (let frags =
             (case minSalary j of None \<Rightarrow> [] | Some m \<Rightarrow> [''salary >= $1'']) @
             (if hasEquity j = JBool True then [''equity > 0''] else []);
           q = (''SELECT j.id, j.title, j.salary, j.equity, j.company_handle as '' @ [DQ] @
                ''companyHandle'' @ [DQ] @ '', c.name AS '' @ [DQ] @ ''companyName'' @ [DQ] @ [NL] @
                ''        FROM jobs j '' @ [NL] @ ''        LEFT JOIN companies AS c'' @ [NL] @
                ''        ON c.handle = j.company_handle ''
                 @ (if frags = [] then [] else '' WHERE '' @ join '' AND '' frags @ '' '')
                 @ ''ORDER BY title'',
                (case minSalary j of None \<Rightarrow> [] | Some m \<Rightarrow> [JNum m]))
       in Job_findAll db (j\<lparr>title := JUndefined\<rparr>) log = (db log q, log @ [q]))"
proof -
  have k1:
    "\<not> truthy n \<longrightarrow>
      Company_findAll_wheres (c\<lparr>name := n\<rparr>) = Company_findAll_wheres (c\<lparr>name := JUndefined\<rparr>)
      \<and> Company_findAll db (c\<lparr>name := n\<rparr>) log = Company_findAll db (c\<lparr>name := JUndefined\<rparr>) log"
    by (simp add: Company_findAll_wheres_eq Company_findAll_def split: option.splits)
  have k2:
    "\<not> truthy n \<and> \<not> js_gt (minEmployees c) (maxEmployees c) \<longrightarrow>
      (let frags =
             (case minEmployees c of None \<Rightarrow> [] | Some m \<Rightarrow> [''num_employees >= $1'']) @
             (case maxEmployees c of None \<Rightarrow> []
              | Some m \<Rightarrow> [''num_employees <= $'' @ string_of_nat
                  (length (case minEmployees c of None \<Rightarrow> [] | Some m \<Rightarrow> [JNum m]) + 1)]);
           q = (''SELECT handle,'' @ [NL] @ ''                  name,'' @ [NL] @
                ''                  description,'' @ [NL] @ ''                  num_employees AS '' @
                [DQ] @ ''numEmployees'' @ [DQ] @ '','' @ [NL] @ ''                  logo_url AS '' @
                [DQ] @ ''logoUrl'' @ [DQ] @ [NL] @ ''           FROM companies'' @ [NL] @ ''           ''
                 @ (if frags = [] then [] else '' WHERE '' @ join '' AND '' frags)
                 @ ''ORDER BY name'',
                (case minEmployees c of None \<Rightarrow> [] | Some m \<Rightarrow> [JNum m]) @
                (case maxEmployees c of None \<Rightarrow> [] | Some m \<Rightarrow> [JNum m]))
       in Company_findAll db (c\<lparr>name := n\<rparr>) log = (db log q, log @ [q]))"
    using Company_findAll_closed [of "c\<lparr>name := n\<rparr>" db log]
    by (simp add: Company_findAll_mainQuery_def Let_def split: option.splits)
  have k3:
    "Job_findAll_wheres (j\<lparr>title := JStr ''''\<rparr>) =
       (fst (Job_findAll_wheres (j\<lparr>title := JUndefined\<rparr>)) @
          [''title ILIKE $'' @
             string_of_nat (length (snd (Job_findAll_wheres (j\<lparr>title := JUndefined\<rparr>))) + 1)],
        snd (Job_findAll_wheres (j\<lparr>title := JUndefined\<rparr>)) @ [JStr ''%%''])"
    by (simp add: Job_findAll_wheres_eq split: option.splits)
  have k4:
    "Company_findAll_wheres (c\<lparr>name := JStr ''''\<rparr>) =
       Company_findAll_wheres (c\<lparr>name := JUndefined\<rparr>)"
    by (simp add: Company_findAll_wheres_eq split: option.splits)
  have k5:
    "t \<noteq> JUndefined \<longrightarrow>
      (let q = (''SELECT j.id, j.title, j.salary, j.equity, j.company_handle as '' @ [DQ] @
                ''companyHandle'' @ [DQ] @ '', c.name AS '' @ [DQ] @ ''companyName'' @ [DQ] @ [NL] @
                ''        FROM jobs j '' @ [NL] @ ''        LEFT JOIN companies AS c'' @ [NL] @
                ''        ON c.handle = j.company_handle ''
                 @ '' WHERE ''
                 @ join '' AND ''
                     ((case minSalary j of None \<Rightarrow> [] | Some m \<Rightarrow> [''salary >= $1'']) @
                      (if hasEquity j = JBool True then [''equity > 0''] else []) @
                      [''title ILIKE $'' @ string_of_nat
                         (length (case minSalary j of None \<Rightarrow> [] | Some m \<Rightarrow> [JNum m]) + 1)])
                 @ '' '' @ ''ORDER BY title'',
                (case minSalary j of None \<Rightarrow> [] | Some m \<Rightarrow> [JNum m]) @
                [JStr (''%'' @ to_string t @ ''%'')])
       in Job_findAll db (j\<lparr>title := t\<rparr>) log = (db log q, log @ [q]))"
    by (simp add: Job_findAll_closed Job_findAll_mainQuery_def Let_def split: option.splits)
  have k6:
    "let frags =
             (case minSalary j of None \<Rightarrow> [] | Some m \<Rightarrow> [''salary >= $1'']) @
             (if hasEquity j = JBool True then [''equity > 0''] else []);
           q = (''SELECT j.id, j.title, j.salary, j.equity, j.company_handle as '' @ [DQ] @
                ''companyHandle'' @ [DQ] @ '', c.name AS '' @ [DQ] @ ''companyName'' @ [DQ] @ [NL] @
                ''        FROM jobs j '' @ [NL] @ ''        LEFT JOIN companies AS c'' @ [NL] @
                ''        ON c.handle = j.company_handle ''
                 @ (if frags = [] then [] else '' WHERE '' @ join '' AND '' frags @ '' '')
                 @ ''ORDER BY title'',
                (case minSalary j of None \<Rightarrow> [] | Some m \<Rightarrow> [JNum m]))
       in Job_findAll db (j\<lparr>title := JUndefined\<rparr>) log = (db log q, log @ [q])"
    by (simp add: Job_findAll_closed Job_findAll_mainQuery_def Let_def split: option.splits)
  show ?thesis by (intro conjI k1 k2 k3 k4 k5 k6)
qed

theorem falsy_name_and_empty_title_witness:
  "Company_findAll (constant_db [])
     \<lparr>minEmployees = Some 2, maxEmployees = None, name = JStr ''''\<rparr> [] =
     (Inr [],
      [(''SELECT handle,'' @ [NL] @ ''                  name,'' @ [NL] @
        ''                  description,'' @ [NL] @ ''                  num_employees AS '' @
        [DQ] @ ''numEmployees'' @ [DQ] @ '','' @ [NL] @ ''                  logo_url AS '' @
        [DQ] @ ''logoUrl'' @ [DQ] @ [NL] @ ''           FROM companies'' @ [NL] @ ''           ''
          @ '' WHERE num_employees >= $1ORDER BY name'',
        [JNum 2])])
   \<and> Company_findAll (constant_db [])
     \<lparr>minEmployees = Some 2, maxEmployees = None, name = JStr ''''\<rparr> [] =
     Company_findAll (constant_db [])
     \<lparr>minEmployees = Some 2, maxEmployees = None, name = JUndefined\<rparr> []
   \<and> Job_findAll (constant_db [])
     \<lparr>title = JStr '''', minSalary = Some 2, hasEquity = JBool False\<rparr> [] =
     (Inr [],
      [(''SELECT j.id, j.title, j.salary, j.equity, j.company_handle as '' @ [DQ] @
        ''companyHandle'' @ [DQ] @ '', c.name AS '' @ [DQ] @ ''companyName'' @ [DQ] @ [NL] @
        ''        FROM jobs j '' @ [NL] @ ''        LEFT JOIN companies AS c'' @ [NL] @
        ''        ON c.handle = j.company_handle ''
          @ '' WHERE salary >= $1 AND title ILIKE $2 ORDER BY title'',
        [JNum 2, JStr ''%%''])])
   \<and> Job_findAll (constant_db [])
     \<lparr>title = JUndefined, minSalary = Some 2, hasEquity = JBool False\<rparr> [] =
     (Inr [],
      [(''SELECT j.id, j.title, j.salary, j.equity, j.company_handle as '' @ [DQ] @
        ''companyHandle'' @ [DQ] @ '', c.name AS '' @ [DQ] @ ''companyName'' @ [DQ] @ [NL] @
        ''        FROM jobs j '' @ [NL] @ ''        LEFT JOIN companies AS c'' @ [NL] @
        ''        ON c.handle = j.company_handle ''
          @ '' WHERE salary >= $1 ORDER BY title'',
        [JNum 2])])"
proof -
  have falsy: "\<not> truthy (JStr '''')" and given: "JStr '''' \<noteq> JUndefined"
    and bounds: "\<not> js_gt (Some 2) None"
    by (simp_all add: js_gt_def)
  note sent = falsy_name_and_empty_title
    [where n = "JStr ''''" and t = "JStr ''''"
       and c = "\<lparr>minEmployees = Some 2, maxEmployees = None, name = JNull\<rparr>"
       and j = "\<lparr>title = JNull, minSalary = Some 2, hasEquity = JBool False\<rparr>"
       and db = "constant_db []" and log = "[]"]
  note k1 = sent [THEN conjunct1, rule_format, OF falsy]
  note k2 = sent [THEN conjunct2, THEN conjunct1, rule_format]
  note k5 = sent [THEN conjunct2, THEN conjunct2, THEN conjunct2, THEN conjunct2,
                  THEN conjunct1, rule_format, OF given]
  note k6 = sent [THEN conjunct2, THEN conjunct2, THEN conjunct2, THEN conjunct2,
                  THEN conjunct2]
  from k1 have same:
    "Company_findAll (constant_db [])
       \<lparr>minEmployees = Some 2, maxEmployees = None, name = JStr ''''\<rparr> [] =
     Company_findAll (constant_db [])
       \<lparr>minEmployees = Some 2, maxEmployees = None, name = JUndefined\<rparr> []"
    by simp
  from k2 falsy bounds have company:
    "Company_findAll (constant_db [])
       \<lparr>minEmployees = Some 2, maxEmployees = None, name = JStr ''''\<rparr> [] =
     (Inr [],
      [(''SELECT handle,'' @ [NL] @ ''                  name,'' @ [NL] @
        ''                  description,'' @ [NL] @ ''                  num_employees AS '' @
        [DQ] @ ''numEmployees'' @ [DQ] @ '','' @ [NL] @ ''                  logo_url AS '' @
        [DQ] @ ''logoUrl'' @ [DQ] @ [NL] @ ''           FROM companies'' @ [NL] @ ''           ''
          @ '' WHERE num_employees >= $1ORDER BY name'',
        [JNum 2])])"
    by (simp add: Let_def constant_db_def)
  from k5 have job:
    "Job_findAll (constant_db [])
       \<lparr>title = JStr '''', minSalary = Some 2, hasEquity = JBool False\<rparr> [] =
     (Inr [],
      [(''SELECT j.id, j.title, j.salary, j.equity, j.company_handle as '' @ [DQ] @
        ''companyHandle'' @ [DQ] @ '', c.name AS '' @ [DQ] @ ''companyName'' @ [DQ] @ [NL] @
        ''        FROM jobs j '' @ [NL] @ ''        LEFT JOIN companies AS c'' @ [NL] @
        ''        ON c.handle = j.company_handle ''
          @ '' WHERE salary >= $1 AND title ILIKE $2 ORDER BY title'',
        [JNum 2, JStr ''%%''])])"
    by (simp add: Let_def constant_db_def string_of_nat.simps digit_char_def)
  from k6 have absent:
    "Job_findAll (constant_db [])
       \<lparr>title = JUndefined, minSalary = Some 2, hasEquity = JBool False\<rparr> [] =
     (Inr [],
      [(''SELECT j.id, j.title, j.salary, j.equity, j.company_handle as '' @ [DQ] @
        ''companyHandle'' @ [DQ] @ '', c.name AS '' @ [DQ] @ ''companyName'' @ [DQ] @ [NL] @
        ''        FROM jobs j '' @ [NL] @ ''        LEFT JOIN companies AS c'' @ [NL] @
        ''        ON c.handle = j.company_handle ''
          @ '' WHERE salary >= $1 ORDER BY title'',
        [JNum 2])])"
    by (simp add: Let_def constant_db_def)
  show ?thesis by (intro conjI company same job absent)
qed

section \<open>Patching a job\<close>

lemma validate_additional:
  "k \<in> fst ` set body \<Longrightarrow> k = ''id'' \<or> k = ''companyHandle'' \<Longrightarrow>
   AdditionalProperty k \<in> set (validate body jobUpdateSchema)"
  by (auto simp add: validate_def jobUpdateSchema_def)

text \<open>
  C7, as amended. A body of \<open>PATCH /jobs/:id\<close> that has the field \<open>id\<close> or the field
  \<open>companyHandle\<close> fails the validation against the job-update schema: the handler
  passes on a bad-request error, \<open>Job.update\<close> is not called and no statement reaches the
  storage.
\<close>

theorem jobs_patch_rejects_id_and_companyHandle:
  "k \<in> fst ` set body \<Longrightarrow> k = ''id'' \<or> k = ''companyHandle'' \<Longrightarrow>
   AdditionalProperty k \<in> set (validate body jobUpdateSchema)
   \<and> jobs_patch db id_param body log =
       (Inl (BadRequestError (ValidationErrors (validate body jobUpdateSchema))), log)"
proof -
  assume k: "k \<in> fst ` set body" "k = ''id'' \<or> k = ''companyHandle''"
  then have a: "AdditionalProperty k \<in> set (validate body jobUpdateSchema)"
    by (rule validate_additional)
  then have "validate body jobUpdateSchema \<noteq> []" by auto
  then have "jobs_patch db id_param body log =
       (Inl (BadRequestError (ValidationErrors (validate body jobUpdateSchema))), log)"
    by (simp add: jobs_patch_def Let_def)
  with a show ?thesis by simp
qed

theorem jobs_patch_rejects_id_and_companyHandle_witness:
  "jobs_patch (constant_db [[(''id'', JNum 999)]]) ''1'' [(''id'', JNum 999)] [] =
     (Inl (BadRequestError (ValidationErrors [AdditionalProperty ''id''])), [])
   \<and> jobs_patch (constant_db [[(''id'', JNum 999)]]) ''1''
        [(''title'', JStr ''t''), (''companyHandle'', JStr ''c2'')] [] =
     (Inl (BadRequestError (ValidationErrors [AdditionalProperty ''companyHandle''])), [])"
  using jobs_patch_rejects_id_and_companyHandle
    [where k = "''id''" and body = "[(''id'', JNum 999)]"
       and db = "constant_db [[(''id'', JNum 999)]]" and id_param = "''1''" and log = "[]"]
    jobs_patch_rejects_id_and_companyHandle
    [where k = "''companyHandle''"
       and body = "[(''title'', JStr ''t''), (''companyHandle'', JStr ''c2'')]"
       and db = "constant_db [[(''id'', JNum 999)]]" and id_param = "''1''" and log = "[]"]
  by (simp add: validate_def jobUpdateSchema_def object_get_def Object_prototype_def property_valid_def)

text \<open>
  \<open>Job.update\<close> itself does not look at the names of the fields: called with the field
  \<open>id\<close> it sends the statement that sets the column \<open>id\<close> and returns the row; called
  with \<open>companyHandle\<close> it sends a statement that sets a column of that name.
\<close>

theorem Job_update_accepts_id_counterexample:
  "Job_update (constant_db [[(''id'', JNum 999)]]) (JNum 1) [(''id'', JNum 999)] [] =
     (Inr [(''id'', JNum 999)],
      [(Job_update_querySql ([DQ] @ ''id'' @ [DQ] @ ''=$1'') ''$2'', [JNum 999, JNum 1])])
   \<and> snd (Job_update (constant_db []) (JNum 1) [(''companyHandle'', JStr ''c2'')] []) =
      [(Job_update_querySql ([DQ] @ ''companyHandle'' @ [DQ] @ ''=$1'') ''$2'',
        [JStr ''c2'', JNum 1])]"
  by (simp add: Job_update_def sqlForPartialUpdate_def partial_update_cols_def assignment_def
      column_name_def js_or_def object_get_def Object_prototype_def string_of_nat.simps digit_char_def
      db_query_def constant_db_def first_row_def)

section \<open>Creating a company\<close>

text \<open>
  C8. \<open>Company.create\<close> first asks the storage for the handle. When that lookup returns a
  row, the result is the bad-request error \<open>Duplicate company\<close> and the lookup is the only
  statement sent: the insert is not attempted. When the lookup returns no row, the insert
  follows the lookup. In every case the first statement sent is the lookup.
\<close>

theorem Company_create_duplicate:
  "(db log (Company_create_duplicateCheck_sql, [object_get data ''handle'']) = Inr (r # rs) \<longrightarrow>
      Company_create db data log =
        (Inl (BadRequestError (Message
           (''Duplicate company: '' @ to_string (object_get data ''handle'')))),
         log @ [(Company_create_duplicateCheck_sql, [object_get data ''handle''])]))
   \<and> (db log (Company_create_duplicateCheck_sql, [object_get data ''handle'']) = Inr [] \<longrightarrow>
      snd (Company_create db data log) =
        log @ [(Company_create_duplicateCheck_sql, [object_get data ''handle'']),
               (Company_create_sql,
                [object_get data ''handle'', object_get data ''name'',
                 object_get data ''description'', object_get data ''numEmployees'',
                 object_get data ''logoUrl''])])
   \<and> take (Suc (length log)) (snd (Company_create db data log)) =
        log @ [(Company_create_duplicateCheck_sql, [object_get data ''handle''])]"
  by (simp add: Company_create_def db_query_def first_row_def Let_def
      split: sum.splits list.splits)

theorem Company_create_duplicate_witness:
  "Company_create (constant_db [[(''handle'', JStr ''c1'')]])
     [(''handle'', JStr ''c1''), (''name'', JStr ''C1'')] [] =
     (Inl (BadRequestError (Message ''Duplicate company: c1'')),
      [(Company_create_duplicateCheck_sql, [JStr ''c1''])])
   \<and> snd (Company_create (constant_db [])
       [(''handle'', JStr ''c1''), (''name'', JStr ''C1'')] []) =
      [(Company_create_duplicateCheck_sql, [JStr ''c1'']),
       (Company_create_sql, [JStr ''c1'', JStr ''C1'', JUndefined, JUndefined, JUndefined])]"
  using Company_create_duplicate
    [where db = "constant_db [[(''handle'', JStr ''c1'')]]"
       and data = "[(''handle'', JStr ''c1''), (''name'', JStr ''C1'')]" and log = "[]"
       and r = "[(''handle'', JStr ''c1'')]" and rs = "[]"]
    Company_create_duplicate
    [where db = "constant_db []"
       and data = "[(''handle'', JStr ''c1''), (''name'', JStr ''C1'')]" and log = "[]"]
  by (simp add: constant_db_def object_get_def Object_prototype_def)

section \<open>Identifiers that match no row\<close>

text \<open>
  C9, as amended. When the storage returns no row for the statement of the operation,
  \<open>get\<close> and \<open>remove\<close> of a company and of a job fail with a not-found error, and so
  does \<open>update\<close> with a non-empty partial-data object.
\<close>

theorem not_found_when_no_row:
  "(db log (Company_get_sql, [handle]) = Inr [] \<longrightarrow>
      Company_get db handle log =
        (Inl (NotFoundError (Message (''No company: '' @ to_string handle))),
         log @ [(Company_get_sql, [handle])]))
   \<and> (db log (Company_remove_sql, [handle]) = Inr [] \<longrightarrow>
      Company_remove db handle log =
        (Inl (NotFoundError (Message (''No company: '' @ to_string handle))),
         log @ [(Company_remove_sql, [handle])]))
   \<and> (data \<noteq> [] \<and>
       db log (Company_update_querySql
                 (join '', '' (partial_update_cols (object_get Company_update_jsToSql)
                                 (map fst data)))
                 (''$'' @ string_of_nat (length data + 1)),
               map snd data @ [handle]) = Inr [] \<longrightarrow>
      fst (Company_update db handle data log) =
        Inl (NotFoundError (Message (''No company: '' @ to_string handle))))
   \<and> (db log (Job_get_sql, [id']) = Inr [] \<longrightarrow>
      Job_get db id' log =
        (Inl (NotFoundError (Message (''No job: '' @ to_string id'))),
         log @ [(Job_get_sql, [id'])]))
   \<and> (db log (Job_remove_sql, [id']) = Inr [] \<longrightarrow>
      Job_remove db id' log =
        (Inl (NotFoundError (Message (''No job: '' @ to_string id'))),
         log @ [(Job_remove_sql, [id'])]))
   \<and> (data \<noteq> [] \<and>
       db log (Job_update_querySql
                 (join '', '' (partial_update_cols (object_get []) (map fst data)))
                 (''$'' @ string_of_nat (length data + 1)),
               map snd data @ [id']) = Inr [] \<longrightarrow>
      fst (Job_update db id' data log) =
        Inl (NotFoundError (Message (''Job not found: '' @ to_string id'))))"
  by (simp add: Company_get_def Company_remove_def Job_get_def Job_remove_def
      db_query_def first_row_def Company_update_nonempty Job_update_nonempty Let_def
      length_partial_update_cols)

theorem not_found_when_no_row_witness:
  "is_not_found (fst (Company_get (constant_db []) (JStr ''nope'') []))
   \<and> is_not_found (fst (Company_remove (constant_db []) (JStr ''nope'') []))
   \<and> is_not_found (fst (Company_update (constant_db []) (JStr ''nope'')
                           [(''name'', JStr ''New'')] []))
   \<and> is_not_found (fst (Job_get (constant_db []) (JNum 0) []))
   \<and> is_not_found (fst (Job_remove (constant_db []) (JNum 0) []))
   \<and> is_not_found (fst (Job_update (constant_db []) (JNum 0) [(''name'', JStr ''New'')] []))"
  using not_found_when_no_row
    [where db = "constant_db []" and log = "[]" and handle = "JStr ''nope''"
       and id' = "JNum 0" and data = "[(''name'', JStr ''New'')]"]
  by (simp add: constant_db_def)

text \<open>
  With an empty partial-data object \<open>update\<close> fails with the bad-request error of the
  builder, also when no row matches the identifier.
\<close>

theorem update_empty_missing_row_counterexample:
  "\<not> is_not_found (fst (Job_update (constant_db []) (JNum 0) [] []))
   \<and> is_bad_request (fst (Job_update (constant_db []) (JNum 0) [] []))
   \<and> \<not> is_not_found (fst (Company_update (constant_db []) (JStr ''nope'') [] []))
   \<and> is_bad_request (fst (Company_update (constant_db []) (JStr ''nope'') [] []))"
  by (simp add: Job_update_def Company_update_def sqlForPartialUpdate_def)

end
